theory Spec2Isabelle
  imports Main
begin

section \<open>Single-precision floating point\<close>

text \<open>
  The controller of \<^verbatim>\<open>PIDController.h\<close> computes on C++ \<^verbatim>\<open>float\<close>. The model takes
  \<^verbatim>\<open>float\<close> to be IEEE 754 binary32 with round-to-nearest, ties-to-even, every
  operation rounded on its own (no extended precision, no fused multiply-add).

  A finite binary32 value is a whole multiple of \<open>2\<^sup>-\<^sup>1\<^sup>4\<^sup>9\<close>, so a finite float is kept
  as a sign (\<open>True\<close> is negative) and its magnitude counted in units of \<open>2\<^sup>-\<^sup>1\<^sup>4\<^sup>9\<close>: the
  value of \<open>Finite s k\<close> is \<open>(-1)\<^sup>s * k * 2\<^sup>-\<^sup>1\<^sup>4\<^sup>9\<close>. Both zeros exist
  (\<open>Finite False 0\<close> and \<open>Finite True 0\<close>). All not-a-number payloads are one value.
\<close>

datatype float = NaN | Infinity bool | Finite bool nat

text \<open>The number of binary digits of a natural number.\<close>

fun bits :: "nat \<Rightarrow> nat" where
  "bits n = (if n = 0 then 0 else Suc (bits (n div 2)))"

declare bits.simps [simp del]

text \<open>
  \<open>fround s n d\<close> rounds the exact magnitude \<open>n / d\<close> (in units of \<open>2\<^sup>-\<^sup>1\<^sup>4\<^sup>9\<close>, \<open>d > 0\<close>) to
  the nearest binary32 magnitude, ties to even: a magnitude below \<open>2\<^sup>2\<^sup>4\<close> units is
  rounded to a whole number of units (this covers the subnormal range), a larger one is
  rounded to 24 significant bits. A rounded magnitude of \<open>2\<^sup>2\<^sup>7\<^sup>7\<close> units (\<open>2\<^sup>1\<^sup>2\<^sup>8\<close>)
  or more overflows to infinity.
\<close>

definition fround :: "bool \<Rightarrow> nat \<Rightarrow> nat \<Rightarrow> float" where
  "fround s n d =
     (let sh = bits (n div d) - 24;
          d' = d * 2 ^ sh;
          r0 = n div d';
          rm = n mod d';
          r = (if d' < 2 * rm \<or> (2 * rm = d' \<and> odd r0) then r0 + 1 else r0);
          k = r * 2 ^ sh
      in if 2 ^ 277 \<le> k then Infinity s else Finite s k)"

text \<open>The float of a small natural number (exact below \<open>2\<^sup>2\<^sup>4\<close>), for literals.\<close>

definition float_of_nat :: "nat \<Rightarrow> float" where
  "float_of_nat n = fround False (n * 2 ^ 149) 1"

definition zero :: float where
  "zero = Finite False 0"

fun fneg :: "float \<Rightarrow> float" where
  "fneg NaN = NaN"
| "fneg (Infinity s) = Infinity (\<not> s)"
| "fneg (Finite s k) = Finite (\<not> s) k"

fun fabs :: "float \<Rightarrow> float" where
  "fabs NaN = NaN"
| "fabs (Infinity s) = Infinity False"
| "fabs (Finite s k) = Finite False k"

text \<open>The signed magnitude of a finite float, in units, as an integer.\<close>

definition sval :: "bool \<Rightarrow> nat \<Rightarrow> int" where
  "sval s k = (if s then - int k else int k)"

fun fadd :: "float \<Rightarrow> float \<Rightarrow> float" where
  "fadd NaN y = NaN"
| "fadd x NaN = NaN"
| "fadd (Infinity s) (Infinity t) = (if s = t then Infinity s else NaN)"
| "fadd (Infinity s) (Finite t k) = Infinity s"
| "fadd (Finite s k) (Infinity t) = Infinity t"
| "fadd (Finite s k) (Finite t j) =
     (let v = sval s k + sval t j
      in if v = 0 then Finite (s \<and> t) 0 else fround (v < 0) (nat \<bar>v\<bar>) 1)"

definition fsub :: "float \<Rightarrow> float \<Rightarrow> float" where
  "fsub x y = fadd x (fneg y)"

fun fmul :: "float \<Rightarrow> float \<Rightarrow> float" where
  "fmul NaN y = NaN"
| "fmul x NaN = NaN"
| "fmul (Infinity s) (Infinity t) = Infinity (s \<noteq> t)"
| "fmul (Infinity s) (Finite t k) = (if k = 0 then NaN else Infinity (s \<noteq> t))"
| "fmul (Finite s k) (Infinity t) = (if k = 0 then NaN else Infinity (s \<noteq> t))"
| "fmul (Finite s k) (Finite t j) = fround (s \<noteq> t) (k * j) (2 ^ 149)"

fun fdiv :: "float \<Rightarrow> float \<Rightarrow> float" where
  "fdiv NaN y = NaN"
| "fdiv x NaN = NaN"
| "fdiv (Infinity s) (Infinity t) = NaN"
| "fdiv (Infinity s) (Finite t k) = Infinity (s \<noteq> t)"
| "fdiv (Finite s k) (Infinity t) = Finite (s \<noteq> t) 0"
| "fdiv (Finite s k) (Finite t j) =
     (if j = 0 then (if k = 0 then NaN else Infinity (s \<noteq> t))
      else fround (s \<noteq> t) (k * 2 ^ 149) j)"

text \<open>
  The comparisons \<^verbatim>\<open>==\<close>, \<^verbatim>\<open><\<close> and \<^verbatim>\<open><=\<close>: false whenever an operand is not a number;
  the two zeros are equal.
\<close>

fun feq :: "float \<Rightarrow> float \<Rightarrow> bool" where
  "feq NaN y = False"
| "feq x NaN = False"
| "feq (Infinity s) (Infinity t) = (s = t)"
| "feq (Infinity s) (Finite t k) = False"
| "feq (Finite s k) (Infinity t) = False"
| "feq (Finite s k) (Finite t j) = (sval s k = sval t j)"

fun flt :: "float \<Rightarrow> float \<Rightarrow> bool" where
  "flt NaN y = False"
| "flt x NaN = False"
| "flt (Infinity s) (Infinity t) = (s \<and> \<not> t)"
| "flt (Infinity s) (Finite t k) = s"
| "flt (Finite s k) (Infinity t) = (\<not> t)"
| "flt (Finite s k) (Finite t j) = (sval s k < sval t j)"

definition fle :: "float \<Rightarrow> float \<Rightarrow> bool" where
  "fle x y = (flt x y \<or> feq x y)"

section \<open>The engine's math helpers\<close>

text \<open>
  \<^verbatim>\<open>FMath::IsNaN\<close> and \<^verbatim>\<open>FMath::Clamp\<close> come from the engine
  (\<^verbatim>\<open>EngineMinimal.h\<close>); their code is not part of this repository.
\<close>

text \<open>
  Modelled from the spec: \<^verbatim>\<open>FMath::IsNaN\<close>, the explicit "is-not-a-number" predicate.
\<close>

definition IsNaN :: "float \<Rightarrow> bool" where
  "IsNaN x = (x = NaN)"

text \<open>
  Modelled from the spec: the \<open>min\<close> and \<open>max\<close> of the clamp formula, each by one
  comparison (\<^verbatim>\<open>b < a ? b : a\<close> and \<^verbatim>\<open>a < b ? b : a\<close>).
\<close>

definition fmin :: "float \<Rightarrow> float \<Rightarrow> float" where
  "fmin a b = (if flt b a then b else a)"

definition fmax :: "float \<Rightarrow> float \<Rightarrow> float" where
  "fmax a b = (if flt a b then b else a)"

text \<open>
  Modelled from the spec: \<^verbatim>\<open>FMath::Clamp\<close>, as \<open>clamp(x, lo, hi) = max(lo, min(x, hi))\<close>.
\<close>

definition Clamp :: "float \<Rightarrow> float \<Rightarrow> float \<Rightarrow> float" where
  "Clamp x lo hi = fmax lo (fmin x hi)"

text \<open>
  The spec does not say what \<open>min\<close> and \<open>max\<close> return when an operand is not a number,
  or which of the two zeros when both meet. No theorem below depends on that choice: each
  one keeps \<open>Clamp\<close> folded where an operand is not a number, and compares the result
  with \<^verbatim>\<open>==\<close> where the limit may be a zero.
\<close>

section \<open>The controller\<close>

text \<open>\<^verbatim>\<open>struct FPIDController\<close>: the four public parameters and the two private errors.\<close>

record FPIDController =
  P :: float
  I :: float
  D :: float
  MaxOutAbs :: float
  PrevErr :: float
  IErr :: float

text \<open>
  A member function that mutates the object takes the object and returns it updated; one
  that also returns a value returns the pair.
\<close>

definition Reset :: "FPIDController \<Rightarrow> FPIDController" where
  "Reset c = c\<lparr>PrevErr := zero, IErr := zero\<rparr>"

text \<open>
  The constructors run on storage whose contents are indeterminate: the storage is the
  first argument. The default constructor initialises nothing; the other one sets the four
  parameters from its initialiser list and calls \<^verbatim>\<open>Reset\<close>.
\<close>

definition FPIDController_default :: "FPIDController \<Rightarrow> FPIDController" where
  "FPIDController_default this = this"

definition FPIDController_init ::
  "FPIDController \<Rightarrow> float \<Rightarrow> float \<Rightarrow> float \<Rightarrow> float \<Rightarrow> FPIDController" where
  "FPIDController_init this InP InI InD InMaxOutAbs =
     Reset (this\<lparr>P := InP, I := InI, D := InD, MaxOutAbs := InMaxOutAbs\<rparr>)"

definition Update :: "FPIDController \<Rightarrow> float \<Rightarrow> float \<Rightarrow> float \<times> FPIDController" where
  "Update c InError InDeltaTime =
     (if feq InDeltaTime zero \<or> IsNaN InError then (zero, c)
      else
        let POut = fmul (P c) InError;
            c1 = c\<lparr>IErr := fadd (IErr c) (fmul InDeltaTime InError)\<rparr>;
            IOut = fmul (I c1) (IErr c1);
            DErr = fdiv (fsub InError (PrevErr c1)) InDeltaTime;
            DOut = fmul (D c1) DErr;
            c2 = c1\<lparr>PrevErr := InError\<rparr>;
            Out = fadd (fadd POut IOut) DOut
        in (Clamp Out (fneg (MaxOutAbs c2)) (MaxOutAbs c2), c2))"

definition UpdateAsPID :: "FPIDController \<Rightarrow> float \<Rightarrow> float \<Rightarrow> float \<times> FPIDController" where
  "UpdateAsPID c InError InDeltaTime = Update c InError InDeltaTime"

definition UpdateAsP :: "FPIDController \<Rightarrow> float \<Rightarrow> float \<times> FPIDController" where
  "UpdateAsP c InError =
     (if IsNaN InError then (zero, c)
      else
        let Out = fmul (P c) InError
        in (Clamp Out (fneg (MaxOutAbs c)) (MaxOutAbs c), c))"

definition UpdateAsPD :: "FPIDController \<Rightarrow> float \<Rightarrow> float \<Rightarrow> float \<times> FPIDController" where
  "UpdateAsPD c InError InDeltaTime =
     (if feq InDeltaTime zero \<or> IsNaN InError then (zero, c)
      else
        let POut = fmul (P c) InError;
            DErr = fdiv (fsub InError (PrevErr c)) InDeltaTime;
            DOut = fmul (D c) DErr;
            c1 = c\<lparr>PrevErr := InError\<rparr>;
            Out = fadd POut DOut
        in (Clamp Out (fneg (MaxOutAbs c1)) (MaxOutAbs c1), c1))"

definition UpdateAsPI :: "FPIDController \<Rightarrow> float \<Rightarrow> float \<Rightarrow> float \<times> FPIDController" where
  "UpdateAsPI c InError InDeltaTime =
     (if feq InDeltaTime zero \<or> IsNaN InError then (zero, c)
      else
        let POut = fmul (P c) InError;
            c1 = c\<lparr>IErr := fadd (IErr c) (fmul InDeltaTime InError)\<rparr>;
            IOut = fmul (I c1) (IErr c1);
            Out = fadd POut IOut
        in (Clamp Out (fneg (MaxOutAbs c1)) (MaxOutAbs c1), c1))"

section \<open>The unclamped outputs\<close>

text \<open>
  The value of the local \<^verbatim>\<open>Out\<close> of each update function just before the clamp, written
  over the state the call starts from.
\<close>

definition Out_PID :: "FPIDController \<Rightarrow> float \<Rightarrow> float \<Rightarrow> float" where
  "Out_PID c InError InDeltaTime =
     fadd (fadd (fmul (P c) InError)
                (fmul (I c) (fadd (IErr c) (fmul InDeltaTime InError))))
          (fmul (D c) (fdiv (fsub InError (PrevErr c)) InDeltaTime))"

definition Out_P :: "FPIDController \<Rightarrow> float \<Rightarrow> float" where
  "Out_P c InError = fmul (P c) InError"

definition Out_PD :: "FPIDController \<Rightarrow> float \<Rightarrow> float \<Rightarrow> float" where
  "Out_PD c InError InDeltaTime =
     fadd (fmul (P c) InError) (fmul (D c) (fdiv (fsub InError (PrevErr c)) InDeltaTime))"

definition Out_PI :: "FPIDController \<Rightarrow> float \<Rightarrow> float \<Rightarrow> float" where
  "Out_PI c InError InDeltaTime =
     fadd (fmul (P c) InError) (fmul (I c) (fadd (IErr c) (fmul InDeltaTime InError)))"

section \<open>A controller in use\<close>

text \<open>
  A controller in the middle of a run, for concrete instances: gains 2, 1 and 1, output
  limit 20, previous error 3 and integral error 4.
\<close>

definition used_ctl :: FPIDController where
  "used_ctl = \<lparr>P = float_of_nat 2, I = float_of_nat 1, D = float_of_nat 1,
      MaxOutAbs = float_of_nat 20, PrevErr = float_of_nat 3, IErr = float_of_nat 4\<rparr>"

section \<open>Rounding is exact on small whole numbers\<close>

text \<open>
  A whole number below \<open>2\<^sup>2\<^sup>4\<close> is a binary32 value, and sums and products of such
  numbers are the correctly rounded sums and products. These facts evaluate the
  controller on concrete inputs.
\<close>

lemma bits_le_iff: "bits n \<le> b \<longleftrightarrow> n < 2 ^ b"
proof (induction n arbitrary: b rule: bits.induct)
  case (1 n)
  show ?case
  proof (cases "n = 0")
    case True
    then show ?thesis by (simp add: bits.simps)
  next
    case False
    show ?thesis
    proof (cases b)
      case 0
      with False show ?thesis by (simp add: bits.simps)
    next
      case (Suc b')
      have "bits n \<le> b \<longleftrightarrow> bits (n div 2) \<le> b'"
        using False Suc by (simp add: bits.simps)
      also have "\<dots> \<longleftrightarrow> n div 2 < 2 ^ b'"
        using "1.IH" [OF False] .
      also have "\<dots> \<longleftrightarrow> n < 2 ^ b"
        using Suc by (simp add: div_less_iff_less_mult mult.commute)
      finally show ?thesis .
    qed
  qed
qed

lemma fround_scale:
  assumes "0 < c"
  shows "fround s (n * c) (d * c) = fround s n d"
proof -
  have q: "n * c div (d * c) = n div d" using assms by simp
  have r0: "n * c div (d * 2 ^ sh * c) = n div (d * 2 ^ sh)" for sh using assms by simp
  have rm: "n * c mod (d * 2 ^ sh * c) = n mod (d * 2 ^ sh) * c" for sh
    by (simp add: mult_mod_left mult.commute)
  have d': "d * c * 2 ^ sh = d * 2 ^ sh * c" for sh by (simp add: ac_simps)
  show ?thesis
    unfolding fround_def Let_def q d' r0 rm using assms
    by (simp add: mult.assoc [symmetric] mult.commute [of 2])
qed

lemma fround_exact:
  assumes k: "k < 2 ^ 24" and e: "e \<le> 253"
  shows "fround s (k * 2 ^ e) 1 = Finite s (k * 2 ^ e)"
proof -
  define sh where "sh = bits (k * 2 ^ e) - 24"
  have "k * 2 ^ e < 2 ^ 24 * 2 ^ e" using k by simp
  then have "bits (k * 2 ^ e) \<le> 24 + e" by (simp add: bits_le_iff power_add)
  then have sh: "sh \<le> e" by (simp add: sh_def)
  then have split: "k * 2 ^ e = k * 2 ^ (e - sh) * 2 ^ sh"
    by (simp add: mult.assoc power_add [symmetric])
  have r0: "k * 2 ^ e div 2 ^ sh = k * 2 ^ (e - sh)" by (subst split) simp
  have rm: "k * 2 ^ e mod 2 ^ sh = 0" by (subst split) simp
  have "(2::nat) ^ e \<le> 2 ^ 253"
    by (rule power_increasing) (use e in simp_all)
  with k have "k * 2 ^ e < 2 ^ 24 * 2 ^ 253"
    by (intro mult_less_le_imp_less) simp_all
  then have bound: "\<not> (2::nat) ^ 277 \<le> k * 2 ^ e"
    by (simp only: power_add [symmetric]) simp
  show ?thesis
    unfolding fround_def Let_def using bound
    by (simp add: sh_def [symmetric] r0 rm split [symmetric])
qed

lemma float_of_nat_exact: "n < 2 ^ 24 \<Longrightarrow> float_of_nat n = Finite False (n * 2 ^ 149)"
  unfolding float_of_nat_def by (rule fround_exact) simp_all

lemma float_of_nat_0: "float_of_nat 0 = zero"
  by (simp add: float_of_nat_exact zero_def)

lemma fadd_float_of_nat:
  assumes a: "a < 2 ^ 24" and b: "b < 2 ^ 24"
  shows "fadd (float_of_nat a) (float_of_nat b) = float_of_nat (a + b)"
proof (cases "a + b = 0")
  case True
  then show ?thesis by (simp add: float_of_nat_exact sval_def)
next
  case False
  define u :: nat where "u = 2 ^ 149"
  define w where "w = (a + b) * u"
  have fa: "float_of_nat a = Finite False (a * u)" and fb: "float_of_nat b = Finite False (b * u)"
    using a b by (simp_all add: float_of_nat_exact u_def)
  have fw: "float_of_nat (a + b) = fround False w 1"
    by (simp add: float_of_nat_def w_def u_def)
  have v: "sval False (a * u) + sval False (b * u) = int w"
    by (simp add: sval_def add_mult_distrib w_def)
  have "0 < u" by (simp add: u_def)
  with False have "w \<noteq> 0" by (simp add: w_def)
  then have nz: "int w \<noteq> 0" by simp
  have pos: "(int w < 0) = False" and ab: "nat \<bar>int w\<bar> = w" by simp_all
  show ?thesis
    unfolding fa fb fw fadd.simps v Let_def by (simp only: nz pos ab if_False)
qed

lemma fmul_float_of_nat:
  assumes "a < 2 ^ 24" "b < 2 ^ 24"
  shows "fmul (float_of_nat a) (float_of_nat b) = float_of_nat (a * b)"
proof -
  have "fmul (float_of_nat a) (float_of_nat b) = fround False (a * b * 2 ^ 149 * 2 ^ 149) (1 * 2 ^ 149)"
    using assms by (simp add: float_of_nat_exact ac_simps)
  also have "\<dots> = float_of_nat (a * b)"
    unfolding float_of_nat_def by (rule fround_scale) simp
  finally show ?thesis .
qed

lemma flt_float_of_nat:
  "a < 2 ^ 24 \<Longrightarrow> b < 2 ^ 24 \<Longrightarrow> flt (float_of_nat a) (float_of_nat b) \<longleftrightarrow> a < b"
  by (simp add: float_of_nat_exact sval_def)

lemma feq_float_of_nat:
  "a < 2 ^ 24 \<Longrightarrow> b < 2 ^ 24 \<Longrightarrow> feq (float_of_nat a) (float_of_nat b) \<longleftrightarrow> a = b"
  by (simp add: float_of_nat_exact sval_def)

lemma float_of_nat_inj:
  "a < 2 ^ 24 \<Longrightarrow> b < 2 ^ 24 \<Longrightarrow> float_of_nat a = float_of_nat b \<longleftrightarrow> a = b"
  by (simp add: float_of_nat_exact)

lemma IsNaN_float_of_nat: "a < 2 ^ 24 \<Longrightarrow> \<not> IsNaN (float_of_nat a)"
  by (simp add: float_of_nat_exact IsNaN_def)

lemma flt_fneg_float_of_nat:
  "a < 2 ^ 24 \<Longrightarrow> b < 2 ^ 24 \<Longrightarrow> flt (fneg (float_of_nat a)) (float_of_nat b) \<longleftrightarrow> 0 < a \<or> 0 < b"
  by (auto simp add: float_of_nat_exact sval_def)

lemma Clamp_float_of_nat:
  assumes "x < 2 ^ 24" "l < 2 ^ 24" "0 < l"
  shows "Clamp (float_of_nat x) (fneg (float_of_nat l)) (float_of_nat l) = float_of_nat (min x l)"
proof -
  have m: "fmin (float_of_nat x) (float_of_nat l) = float_of_nat (min x l)"
    using assms by (simp add: fmin_def flt_float_of_nat min_def)
  have "min x l < 2 ^ 24" using assms by simp
  then show ?thesis
    using assms by (simp add: Clamp_def m fmax_def flt_fneg_float_of_nat)
qed

lemma fsub_float_of_nat:
  assumes a: "a < 2 ^ 24" and b: "b \<le> a"
  shows "fsub (float_of_nat a) (float_of_nat b) = float_of_nat (a - b)"
proof (cases "a = b")
  case True
  then show ?thesis using a by (simp add: fsub_def float_of_nat_exact sval_def)
next
  case False
  define u :: nat where "u = 2 ^ 149"
  define w where "w = (a - b) * u"
  from a b have b': "b < 2 ^ 24" by simp
  have fa: "float_of_nat a = Finite False (a * u)" and fb: "float_of_nat b = Finite False (b * u)"
    using a b' by (simp_all add: float_of_nat_exact u_def)
  have fw: "float_of_nat (a - b) = fround False w 1"
    by (simp add: float_of_nat_def w_def u_def)
  have v: "sval False (a * u) + sval (\<not> False) (b * u) = int w"
    using b by (simp add: sval_def diff_mult_distrib w_def)
  have "0 < u" by (simp add: u_def)
  with False b have "w \<noteq> 0" by (simp add: w_def)
  then have nz: "int w \<noteq> 0" by simp
  have pos: "(int w < 0) = False" and ab: "nat \<bar>int w\<bar> = w" by simp_all
  show ?thesis
    unfolding fsub_def fa fb fw fneg.simps fadd.simps v Let_def
    by (simp only: nz pos ab if_False)
qed

lemma fdiv_float_of_nat:
  assumes a: "a < 2 ^ 24" and b: "b < 2 ^ 24" "0 < b" and d: "b dvd a"
  shows "fdiv (float_of_nat a) (float_of_nat b) = float_of_nat (a div b)"
proof -
  define u :: nat where "u = 2 ^ 149"
  have u: "0 < u" by (simp add: u_def)
  from d have split: "a = a div b * b" by simp
  have "fdiv (float_of_nat a) (float_of_nat b) = fround False (a * u * u) (b * u)"
    using a b by (simp add: float_of_nat_exact u_def)
  also have "\<dots> = fround False (a * u) b"
    using u by (rule fround_scale)
  also have "a * u = a div b * u * b"
    by (subst split) (simp add: ac_simps)
  also have "fround False (a div b * u * b) b = fround False (a div b * u * b) (1 * b)"
    by simp
  also have "\<dots> = fround False (a div b * u) 1"
    using b(2) by (rule fround_scale)
  also have "\<dots> = float_of_nat (a div b)"
    by (simp add: float_of_nat_def u_def)
  finally show ?thesis .
qed

lemmas nat_eval =
  float_of_nat_0 [symmetric] fadd_float_of_nat fmul_float_of_nat fsub_float_of_nat
  fdiv_float_of_nat feq_float_of_nat flt_float_of_nat float_of_nat_inj IsNaN_float_of_nat
  Clamp_float_of_nat

section \<open>Not-a-number operands\<close>

lemma IsNaN_iff: "IsNaN x \<longleftrightarrow> x = NaN" by (simp add: IsNaN_def)
lemma fmul_NaN_right: "fmul x NaN = NaN" by (cases x) simp_all
lemma fadd_NaN_right: "fadd x NaN = NaN" by (cases x) simp_all
lemma fdiv_NaN_right: "fdiv x NaN = NaN" by (cases x) simp_all

section \<open>The degenerate-input guard\<close>

text \<open>
  C1. If \<^verbatim>\<open>InDeltaTime == 0.0f\<close> or the error is not a number, \<^verbatim>\<open>Update\<close> returns 0 and
  leaves the controller as it was; \<^verbatim>\<open>UpdateAsPD\<close>, \<^verbatim>\<open>UpdateAsPI\<close> and \<^verbatim>\<open>UpdateAsPID\<close>
  have the same guard. The whole controller is unchanged, so previous error and integral
  error are.
\<close>

theorem degenerate_input_guard:
  "feq InDeltaTime zero \<or> IsNaN InError \<Longrightarrow>
     Update c InError InDeltaTime = (zero, c) \<and>
     UpdateAsPD c InError InDeltaTime = (zero, c) \<and>
     UpdateAsPI c InError InDeltaTime = (zero, c) \<and>
     UpdateAsPID c InError InDeltaTime = (zero, c)"
  by (simp add: Update_def UpdateAsPD_def UpdateAsPI_def UpdateAsPID_def)

theorem degenerate_input_guard_witness:
  "(feq (Finite True 0) zero \<or> IsNaN (float_of_nat 5)) \<and>
   (feq (float_of_nat 1) zero \<or> IsNaN NaN) \<and>
   Update used_ctl (float_of_nat 5) (Finite True 0) = (zero, used_ctl) \<and>
   UpdateAsPD used_ctl (float_of_nat 5) (Finite True 0) = (zero, used_ctl) \<and>
   UpdateAsPI used_ctl NaN (float_of_nat 1) = (zero, used_ctl) \<and>
   UpdateAsPID used_ctl NaN (float_of_nat 1) = (zero, used_ctl)"
  using degenerate_input_guard [of "Finite True 0" "float_of_nat 5" used_ctl]
        degenerate_input_guard [of "float_of_nat 1" NaN used_ctl]
  by (simp add: zero_def sval_def IsNaN_def)

section \<open>The full update\<close>

text \<open>
  C2. On a non-degenerate input (\<^verbatim>\<open>InDeltaTime\<close> not equal to 0, error a number)
  \<^verbatim>\<open>Update\<close> adds \<open>deltaTime * error\<close> to the integral error, sets the previous error to
  the error, and returns \<open>pOut + iOut + dOut\<close> clamped to the output limit, where
  \<open>pOut = P * error\<close>, \<open>iOut = I * integralError\<close> (the new integral error) and
  \<open>dOut = D * ((error - previousError) / deltaTime)\<close> (the old previous error). Gains and
  output limit are not changed.
\<close>

theorem Update_computation:
  "\<not> feq InDeltaTime zero \<Longrightarrow> \<not> IsNaN InError \<Longrightarrow>
     Update c InError InDeltaTime =
       (Clamp (fadd (fadd (fmul (P c) InError)
                          (fmul (I c) (fadd (IErr c) (fmul InDeltaTime InError))))
                    (fmul (D c) (fdiv (fsub InError (PrevErr c)) InDeltaTime)))
              (fneg (MaxOutAbs c)) (MaxOutAbs c),
        c\<lparr>PrevErr := InError, IErr := fadd (IErr c) (fmul InDeltaTime InError)\<rparr>) \<and>
     P (snd (Update c InError InDeltaTime)) = P c \<and>
     I (snd (Update c InError InDeltaTime)) = I c \<and>
     D (snd (Update c InError InDeltaTime)) = D c \<and>
     MaxOutAbs (snd (Update c InError InDeltaTime)) = MaxOutAbs c"
  by (simp add: Update_def Let_def)

theorem Update_computation_witness:
  "\<not> feq (float_of_nat 1) zero \<and> \<not> IsNaN (float_of_nat 5) \<and>
   Update used_ctl (float_of_nat 5) (float_of_nat 1) =
     (float_of_nat 20, used_ctl\<lparr>PrevErr := float_of_nat 5, IErr := float_of_nat 9\<rparr>)"
  using Update_computation [of "float_of_nat 1" "float_of_nat 5" used_ctl]
  by (simp add: used_ctl_def nat_eval)

section \<open>The output clamp\<close>

text \<open>
  The clamp saturates at the output limit. Float equality (\<^verbatim>\<open>==\<close>) is used where the
  limit may be a zero, since the two zeros are equal but distinct values.
\<close>

lemma Clamp_above:
  "fle zero lim \<Longrightarrow> flt lim x \<Longrightarrow> feq (Clamp x (fneg lim) lim) lim"
  by (cases x; cases lim)
     (auto simp: Clamp_def fmin_def fmax_def fle_def zero_def sval_def split: if_splits)

lemma Clamp_below:
  "fle zero lim \<Longrightarrow> flt x (fneg lim) \<Longrightarrow> feq (Clamp x (fneg lim) lim) (fneg lim)"
  by (cases x; cases lim)
     (auto simp: Clamp_def fmin_def fmax_def fle_def zero_def sval_def split: if_splits)

lemma Clamp_above_strict:
  "flt zero lim \<Longrightarrow> flt lim x \<Longrightarrow> Clamp x (fneg lim) lim = lim"
  by (cases x; cases lim)
     (auto simp: Clamp_def fmin_def fmax_def zero_def sval_def split: if_splits)

lemma Clamp_below_strict:
  "flt zero lim \<Longrightarrow> flt x (fneg lim) \<Longrightarrow> Clamp x (fneg lim) lim = fneg lim"
  by (cases x; cases lim)
     (auto simp: Clamp_def fmin_def fmax_def zero_def sval_def split: if_splits)

lemma Clamp_saturates:
  "flt lim (fabs x) \<Longrightarrow>
     feq (Clamp x (fneg lim) lim) lim \<or> feq (Clamp x (fneg lim) lim) (fneg lim)"
  by (cases x; cases lim)
     (auto simp: Clamp_def fmin_def fmax_def sval_def split: if_splits)

lemma fabs_above:
  "fle zero lim \<Longrightarrow> flt lim (fabs x) \<Longrightarrow> flt zero x \<Longrightarrow> flt lim x"
  by (cases x; cases lim) (auto simp: fle_def zero_def sval_def split: if_splits)

lemma fabs_below:
  "fle zero lim \<Longrightarrow> flt lim (fabs x) \<Longrightarrow> flt x zero \<Longrightarrow> flt x (fneg lim)"
  by (cases x; cases lim) (auto simp: fle_def zero_def sval_def split: if_splits)

lemma fabs_sign:
  "fle zero lim \<Longrightarrow> flt lim (fabs x) \<Longrightarrow> flt zero x \<or> flt x zero"
  by (cases x; cases lim) (auto simp: fle_def zero_def sval_def split: if_splits)

lemma flt_zero_fle: "flt zero lim \<Longrightarrow> fle zero lim"
  by (simp add: fle_def)

lemma fabs_float_of_nat: "a < 2 ^ 24 \<Longrightarrow> fabs (float_of_nat a) = float_of_nat a"
  by (simp add: float_of_nat_exact)

lemma fabs_fneg_float_of_nat: "a < 2 ^ 24 \<Longrightarrow> fabs (fneg (float_of_nat a)) = float_of_nat a"
  by (simp add: float_of_nat_exact)

lemma fle_float_of_nat:
  "a < 2 ^ 24 \<Longrightarrow> b < 2 ^ 24 \<Longrightarrow> fle (float_of_nat a) (float_of_nat b) \<longleftrightarrow> a \<le> b"
  by (auto simp add: fle_def flt_float_of_nat feq_float_of_nat)

lemma fst_Update:
  "\<not> feq InDeltaTime zero \<Longrightarrow> \<not> IsNaN InError \<Longrightarrow>
     fst (Update c InError InDeltaTime) =
       Clamp (Out_PID c InError InDeltaTime) (fneg (MaxOutAbs c)) (MaxOutAbs c)"
  by (simp add: Update_def Out_PID_def Let_def)

lemma fst_UpdateAsPD:
  "\<not> feq InDeltaTime zero \<Longrightarrow> \<not> IsNaN InError \<Longrightarrow>
     fst (UpdateAsPD c InError InDeltaTime) =
       Clamp (Out_PD c InError InDeltaTime) (fneg (MaxOutAbs c)) (MaxOutAbs c)"
  by (simp add: UpdateAsPD_def Out_PD_def Let_def)

lemma fst_UpdateAsPI:
  "\<not> feq InDeltaTime zero \<Longrightarrow> \<not> IsNaN InError \<Longrightarrow>
     fst (UpdateAsPI c InError InDeltaTime) =
       Clamp (Out_PI c InError InDeltaTime) (fneg (MaxOutAbs c)) (MaxOutAbs c)"
  by (simp add: UpdateAsPI_def Out_PI_def Let_def)

lemma fst_UpdateAsP:
  "\<not> IsNaN InError \<Longrightarrow>
     fst (UpdateAsP c InError) = Clamp (Out_P c InError) (fneg (MaxOutAbs c)) (MaxOutAbs c)"
  by (simp add: UpdateAsP_def Out_P_def Let_def)

text \<open>
  C3. Every update variant returns, on an input that passes its guard, the clamp of its
  unclamped output to \<open>[-MaxOutAbs, MaxOutAbs]\<close>, where
  \<open>clamp(x, lo, hi) = max(lo, min(x, hi))\<close>. When the absolute value of the unclamped
  output \<open>x\<close> exceeds the limit, the result equals the limit or its negation; with a
  non-negative limit (the data model's invariant) it is the limit for positive \<open>x\<close> and the
  negated limit for negative \<open>x\<close>, and \<open>x\<close> is one of the two. With a positive limit the
  result is that very value.
\<close>

theorem output_clamp_symmetric:
  "Clamp x lo hi = fmax lo (fmin x hi) \<and>
   (\<not> feq InDeltaTime zero \<and> \<not> IsNaN InError \<longrightarrow>
      fst (Update c InError InDeltaTime) =
        Clamp (Out_PID c InError InDeltaTime) (fneg (MaxOutAbs c)) (MaxOutAbs c) \<and>
      fst (UpdateAsPID c InError InDeltaTime) =
        Clamp (Out_PID c InError InDeltaTime) (fneg (MaxOutAbs c)) (MaxOutAbs c) \<and>
      fst (UpdateAsPD c InError InDeltaTime) =
        Clamp (Out_PD c InError InDeltaTime) (fneg (MaxOutAbs c)) (MaxOutAbs c) \<and>
      fst (UpdateAsPI c InError InDeltaTime) =
        Clamp (Out_PI c InError InDeltaTime) (fneg (MaxOutAbs c)) (MaxOutAbs c)) \<and>
   (\<not> IsNaN InError \<longrightarrow>
      fst (UpdateAsP c InError) =
        Clamp (Out_P c InError) (fneg (MaxOutAbs c)) (MaxOutAbs c)) \<and>
   (flt lim (fabs x) \<longrightarrow>
      feq (Clamp x (fneg lim) lim) lim \<or> feq (Clamp x (fneg lim) lim) (fneg lim)) \<and>
   (fle zero lim \<and> flt lim (fabs x) \<longrightarrow>
      (flt zero x \<or> flt x zero) \<and>
      (flt zero x \<longrightarrow> feq (Clamp x (fneg lim) lim) lim) \<and>
      (flt x zero \<longrightarrow> feq (Clamp x (fneg lim) lim) (fneg lim))) \<and>
   (flt zero lim \<and> flt lim (fabs x) \<longrightarrow>
      (flt zero x \<longrightarrow> Clamp x (fneg lim) lim = lim) \<and>
      (flt x zero \<longrightarrow> Clamp x (fneg lim) lim = fneg lim))"
proof -
  have "Clamp x lo hi = fmax lo (fmin x hi)"
    by (simp add: Clamp_def)
  moreover have "\<not> feq InDeltaTime zero \<and> \<not> IsNaN InError \<longrightarrow>
      fst (Update c InError InDeltaTime) =
        Clamp (Out_PID c InError InDeltaTime) (fneg (MaxOutAbs c)) (MaxOutAbs c) \<and>
      fst (UpdateAsPID c InError InDeltaTime) =
        Clamp (Out_PID c InError InDeltaTime) (fneg (MaxOutAbs c)) (MaxOutAbs c) \<and>
      fst (UpdateAsPD c InError InDeltaTime) =
        Clamp (Out_PD c InError InDeltaTime) (fneg (MaxOutAbs c)) (MaxOutAbs c) \<and>
      fst (UpdateAsPI c InError InDeltaTime) =
        Clamp (Out_PI c InError InDeltaTime) (fneg (MaxOutAbs c)) (MaxOutAbs c)"
    by (simp add: fst_Update fst_UpdateAsPD fst_UpdateAsPI UpdateAsPID_def)
  moreover have "\<not> IsNaN InError \<longrightarrow>
      fst (UpdateAsP c InError) =
        Clamp (Out_P c InError) (fneg (MaxOutAbs c)) (MaxOutAbs c)"
    by (simp add: fst_UpdateAsP)
  moreover have "flt lim (fabs x) \<longrightarrow>
      feq (Clamp x (fneg lim) lim) lim \<or> feq (Clamp x (fneg lim) lim) (fneg lim)"
    using Clamp_saturates by blast
  moreover have "fle zero lim \<and> flt lim (fabs x) \<longrightarrow>
      (flt zero x \<or> flt x zero) \<and>
      (flt zero x \<longrightarrow> feq (Clamp x (fneg lim) lim) lim) \<and>
      (flt x zero \<longrightarrow> feq (Clamp x (fneg lim) lim) (fneg lim))"
    using fabs_sign fabs_above fabs_below Clamp_above Clamp_below by blast
  moreover have "flt zero lim \<and> flt lim (fabs x) \<longrightarrow>
      (flt zero x \<longrightarrow> Clamp x (fneg lim) lim = lim) \<and>
      (flt x zero \<longrightarrow> Clamp x (fneg lim) lim = fneg lim)"
    using flt_zero_fle fabs_above fabs_below Clamp_above_strict Clamp_below_strict by blast
  ultimately show ?thesis by blast
qed

theorem output_clamp_symmetric_witness:
  "(\<not> feq (float_of_nat 1) zero \<and> \<not> IsNaN (float_of_nat 5)) \<and>
   (fle zero (float_of_nat 20) \<and> flt (float_of_nat 20) (fabs (float_of_nat 21))) \<and>
   (flt zero (float_of_nat 20) \<and> flt zero (float_of_nat 21)) \<and>
   (flt (float_of_nat 20) (fabs (fneg (float_of_nat 21))) \<and>
    flt (fneg (float_of_nat 21)) zero) \<and>
   Out_PID used_ctl (float_of_nat 5) (float_of_nat 1) = float_of_nat 21 \<and>
   MaxOutAbs used_ctl = float_of_nat 20 \<and>
   fst (Update used_ctl (float_of_nat 5) (float_of_nat 1)) =
     Clamp (Out_PID used_ctl (float_of_nat 5) (float_of_nat 1))
       (fneg (MaxOutAbs used_ctl)) (MaxOutAbs used_ctl) \<and>
   feq (Clamp (float_of_nat 21) (fneg (float_of_nat 20)) (float_of_nat 20)) (float_of_nat 20) \<and>
   Clamp (float_of_nat 21) (fneg (float_of_nat 20)) (float_of_nat 20) = float_of_nat 20 \<and>
   Clamp (fneg (float_of_nat 21)) (fneg (float_of_nat 20)) (float_of_nat 20) =
     fneg (float_of_nat 20)"
proof -
  have nondeg: "\<not> feq (float_of_nat 1) zero \<and> \<not> IsNaN (float_of_nat 5)"
    by (simp add: nat_eval)
  have limit: "fle zero (float_of_nat 20) \<and> flt (float_of_nat 20) (fabs (float_of_nat 21))"
    by (simp add: fabs_float_of_nat fle_float_of_nat nat_eval)
  have sign: "flt zero (float_of_nat 20) \<and> flt zero (float_of_nat 21)"
    by (simp add: nat_eval)
  have neg: "flt (float_of_nat 20) (fabs (fneg (float_of_nat 21))) \<and>
      flt (fneg (float_of_nat 21)) zero"
    by (simp add: fabs_fneg_float_of_nat flt_fneg_float_of_nat nat_eval)
  have raw: "Out_PID used_ctl (float_of_nat 5) (float_of_nat 1) = float_of_nat 21"
    by (simp add: Out_PID_def used_ctl_def nat_eval)
  have lim: "MaxOutAbs used_ctl = float_of_nat 20"
    by (simp add: used_ctl_def)
  show ?thesis
    using nondeg limit sign neg raw lim
      output_clamp_symmetric
        [of "float_of_nat 21" "fneg (float_of_nat 20)" "float_of_nat 20" "float_of_nat 1"
            "float_of_nat 5" used_ctl "float_of_nat 20"]
      output_clamp_symmetric
        [of "fneg (float_of_nat 21)" "fneg (float_of_nat 20)" "float_of_nat 20"
            "float_of_nat 1" "float_of_nat 5" used_ctl "float_of_nat 20"]
    by blast
qed

section \<open>The previous error after a reduced variant\<close>

text \<open>
  C4 as stated fails. On a non-degenerate input \<^verbatim>\<open>UpdateAsPI\<close> does not set the previous
  error to the error: with previous error 3, a call with error 5 and time step 1 leaves
  it at 3.
\<close>

theorem UpdateAsPI_PrevErr_counterexample:
  "\<not> feq (float_of_nat 1) zero \<and> \<not> IsNaN (float_of_nat 5) \<and>
   PrevErr (snd (UpdateAsPI used_ctl (float_of_nat 5) (float_of_nat 1))) \<noteq> float_of_nat 5"
  by (simp add: UpdateAsPI_def used_ctl_def Let_def nat_eval)

text \<open>
  C4, amended. On a non-degenerate input \<^verbatim>\<open>UpdateAsPD\<close> and \<^verbatim>\<open>UpdateAsPID\<close> set the
  previous error to the error; \<^verbatim>\<open>UpdateAsPI\<close> leaves the previous error as it was and
  changes only the integral error, to which it adds \<open>deltaTime * error\<close>. \<^verbatim>\<open>UpdateAsPD\<close>
  changes only the previous error, and \<^verbatim>\<open>UpdateAsPID\<close> changes both errors and nothing
  else.
\<close>

theorem PrevErr_after_reduced_variants:
  "\<not> feq InDeltaTime zero \<Longrightarrow> \<not> IsNaN InError \<Longrightarrow>
     PrevErr (snd (UpdateAsPD c InError InDeltaTime)) = InError \<and>
     PrevErr (snd (UpdateAsPID c InError InDeltaTime)) = InError \<and>
     PrevErr (snd (UpdateAsPI c InError InDeltaTime)) = PrevErr c \<and>
     snd (UpdateAsPI c InError InDeltaTime) =
       c\<lparr>IErr := fadd (IErr c) (fmul InDeltaTime InError)\<rparr> \<and>
     snd (UpdateAsPD c InError InDeltaTime) = c\<lparr>PrevErr := InError\<rparr> \<and>
     snd (UpdateAsPID c InError InDeltaTime) =
       c\<lparr>PrevErr := InError, IErr := fadd (IErr c) (fmul InDeltaTime InError)\<rparr>"
proof -
  assume nondeg: "\<not> feq InDeltaTime zero" "\<not> IsNaN InError"
  have pi: "snd (UpdateAsPI c InError InDeltaTime) =
      c\<lparr>IErr := fadd (IErr c) (fmul InDeltaTime InError)\<rparr>"
    using nondeg by (simp add: UpdateAsPI_def Let_def)
  have pd: "snd (UpdateAsPD c InError InDeltaTime) = c\<lparr>PrevErr := InError\<rparr>"
    using nondeg by (simp add: UpdateAsPD_def Let_def)
  have pid: "snd (UpdateAsPID c InError InDeltaTime) =
      c\<lparr>PrevErr := InError, IErr := fadd (IErr c) (fmul InDeltaTime InError)\<rparr>"
    using nondeg by (simp add: UpdateAsPID_def Update_def Let_def)
  show ?thesis
    unfolding pi pd pid by simp
qed

theorem PrevErr_after_reduced_variants_witness:
  "\<not> feq (float_of_nat 1) zero \<and> \<not> IsNaN (float_of_nat 5) \<and>
   PrevErr (snd (UpdateAsPD used_ctl (float_of_nat 5) (float_of_nat 1))) = float_of_nat 5 \<and>
   PrevErr (snd (UpdateAsPID used_ctl (float_of_nat 5) (float_of_nat 1))) = float_of_nat 5 \<and>
   PrevErr (snd (UpdateAsPI used_ctl (float_of_nat 5) (float_of_nat 1))) = float_of_nat 3 \<and>
   snd (UpdateAsPI used_ctl (float_of_nat 5) (float_of_nat 1)) =
     used_ctl\<lparr>IErr := float_of_nat 9\<rparr> \<and>
   snd (UpdateAsPD used_ctl (float_of_nat 5) (float_of_nat 1)) =
     used_ctl\<lparr>PrevErr := float_of_nat 5\<rparr> \<and>
   snd (UpdateAsPID used_ctl (float_of_nat 5) (float_of_nat 1)) =
     used_ctl\<lparr>PrevErr := float_of_nat 5, IErr := float_of_nat 9\<rparr>"
proof -
  have nondeg: "\<not> feq (float_of_nat 1) zero" "\<not> IsNaN (float_of_nat 5)"
    by (simp_all add: nat_eval)
  have prev: "PrevErr used_ctl = float_of_nat 3"
    by (simp add: used_ctl_def)
  have integral: "fadd (IErr used_ctl) (fmul (float_of_nat 1) (float_of_nat 5)) = float_of_nat 9"
    by (simp add: used_ctl_def nat_eval)
  from nondeg prev integral PrevErr_after_reduced_variants [OF nondeg, of used_ctl]
  show ?thesis
    by simp
qed

section \<open>The proportional variant\<close>

text \<open>
  C5. \<^verbatim>\<open>UpdateAsP\<close> has no time step and checks only that the error is a number; it then
  returns the clamp of \<open>P * error\<close>, and it never changes the controller. So its output is
  the same on any two controllers with the same \<open>P\<close> and output limit, whatever was called
  before, and an \<^verbatim>\<open>UpdateAsPID\<close> after it returns what it would have returned without it;
  on a newly constructed controller, what it returns on any newly constructed controller
  with the same parameters.
\<close>

theorem UpdateAsP_isolated:
  "UpdateAsP c InError =
     (if IsNaN InError then zero
      else Clamp (fmul (P c) InError) (fneg (MaxOutAbs c)) (MaxOutAbs c), c) \<and>
   (P c' = P c \<and> MaxOutAbs c' = MaxOutAbs c \<longrightarrow>
      fst (UpdateAsP c' InError) = fst (UpdateAsP c InError)) \<and>
   UpdateAsPID (snd (UpdateAsP c InError)) e dt = UpdateAsPID c e dt \<and>
   UpdateAsPID (snd (UpdateAsP (FPIDController_init this InP InI InD InMaxOutAbs) InError)) e dt =
     UpdateAsPID (FPIDController_init this' InP InI InD InMaxOutAbs) e dt"
  by (cases this; cases this') (simp add: UpdateAsP_def Let_def FPIDController_init_def Reset_def)

theorem UpdateAsP_isolated_witness:
  "(P (used_ctl\<lparr>PrevErr := NaN, IErr := float_of_nat 9\<rparr>) = P used_ctl \<and>
    MaxOutAbs (used_ctl\<lparr>PrevErr := NaN, IErr := float_of_nat 9\<rparr>) = MaxOutAbs used_ctl) \<and>
   fst (UpdateAsP (used_ctl\<lparr>PrevErr := NaN, IErr := float_of_nat 9\<rparr>) (float_of_nat 5)) =
     fst (UpdateAsP used_ctl (float_of_nat 5)) \<and>
   UpdateAsP used_ctl (float_of_nat 5) = (float_of_nat 10, used_ctl) \<and>
   UpdateAsP used_ctl (float_of_nat 15) = (float_of_nat 20, used_ctl) \<and>
   UpdateAsP used_ctl NaN = (zero, used_ctl)"
proof -
  have same: "P (used_ctl\<lparr>PrevErr := NaN, IErr := float_of_nat 9\<rparr>) = P used_ctl \<and>
      MaxOutAbs (used_ctl\<lparr>PrevErr := NaN, IErr := float_of_nat 9\<rparr>) = MaxOutAbs used_ctl"
    by simp
  have gains: "P used_ctl = float_of_nat 2" "MaxOutAbs used_ctl = float_of_nat 20"
    by (simp_all add: used_ctl_def)
  have nan: "IsNaN NaN"
    by (simp add: IsNaN_def)
  show ?thesis
    using same
      UpdateAsP_isolated [of used_ctl "float_of_nat 5"
        "used_ctl\<lparr>PrevErr := NaN, IErr := float_of_nat 9\<rparr>"]
      UpdateAsP_isolated [of used_ctl "float_of_nat 15"]
      UpdateAsP_isolated [of used_ctl NaN]
    by (simp add: gains nat_eval nan)
qed

section \<open>The PID variant\<close>

text \<open>
  C6. \<^verbatim>\<open>UpdateAsPID\<close> is \<^verbatim>\<open>Update\<close>: same output and same controller afterwards, on every
  controller and input.
\<close>

theorem UpdateAsPID_is_Update:
  "UpdateAsPID c InError InDeltaTime = Update c InError InDeltaTime"
  by (simp add: UpdateAsPID_def)

section \<open>Reset\<close>

lemma Reset_funpow: "(Reset ^^ Suc n) c = Reset c"
  by (induction n) (simp_all add: Reset_def)

text \<open>
  C7. \<^verbatim>\<open>Reset\<close> sets previous error and integral error to 0 and changes nothing else.
  Resetting again, any number of times, changes nothing more. A reset controller is equal
  to a newly constructed (and reset) controller with the same gains and output limit, so
  every update behaves the same on both.
\<close>

theorem Reset_idempotent:
  "Reset c = c\<lparr>PrevErr := zero, IErr := zero\<rparr> \<and>
   PrevErr (Reset c) = zero \<and> IErr (Reset c) = zero \<and>
   P (Reset c) = P c \<and> I (Reset c) = I c \<and> D (Reset c) = D c \<and>
   MaxOutAbs (Reset c) = MaxOutAbs c \<and>
   Reset (Reset c) = Reset c \<and>
   (Reset ^^ Suc n) c = Reset c \<and>
   Reset c = Reset (FPIDController_init this (P c) (I c) (D c) (MaxOutAbs c)) \<and>
   Update (Reset c) e dt =
     Update (Reset (FPIDController_init this (P c) (I c) (D c) (MaxOutAbs c))) e dt \<and>
   UpdateAsP (Reset c) e =
     UpdateAsP (Reset (FPIDController_init this (P c) (I c) (D c) (MaxOutAbs c))) e \<and>
   UpdateAsPD (Reset c) e dt =
     UpdateAsPD (Reset (FPIDController_init this (P c) (I c) (D c) (MaxOutAbs c))) e dt \<and>
   UpdateAsPI (Reset c) e dt =
     UpdateAsPI (Reset (FPIDController_init this (P c) (I c) (D c) (MaxOutAbs c))) e dt \<and>
   UpdateAsPID (Reset c) e dt =
     UpdateAsPID (Reset (FPIDController_init this (P c) (I c) (D c) (MaxOutAbs c))) e dt"
proof -
  have fresh: "Reset c = Reset (FPIDController_init this (P c) (I c) (D c) (MaxOutAbs c))"
    by (cases c; cases this) (simp add: Reset_def FPIDController_init_def)
  have "(Reset ^^ Suc n) c = Reset c"
    by (rule Reset_funpow)
  then show ?thesis
    by (simp add: fresh [symmetric]) (simp add: Reset_def)
qed

section \<open>Integral accumulation\<close>

text \<open>
  C8. On a reset controller with \<open>P = 0\<close>, \<open>I = 1\<close> and output limit 1000 (any \<open>D\<close>),
  two calls of \<^verbatim>\<open>UpdateAsPI\<close> with error 2 and time step 1 leave the integral error at 2
  and then 4, and return 2 and then 4.
\<close>

theorem integral_accumulation:
  "IErr (snd (UpdateAsPI
      (Reset (c\<lparr>P := zero, I := float_of_nat 1, MaxOutAbs := float_of_nat 1000\<rparr>))
      (float_of_nat 2) (float_of_nat 1))) = float_of_nat 2 \<and>
   fst (UpdateAsPI
      (Reset (c\<lparr>P := zero, I := float_of_nat 1, MaxOutAbs := float_of_nat 1000\<rparr>))
      (float_of_nat 2) (float_of_nat 1)) = float_of_nat 2 \<and>
   IErr (snd (UpdateAsPI
      (snd (UpdateAsPI
         (Reset (c\<lparr>P := zero, I := float_of_nat 1, MaxOutAbs := float_of_nat 1000\<rparr>))
         (float_of_nat 2) (float_of_nat 1)))
      (float_of_nat 2) (float_of_nat 1))) = float_of_nat 4 \<and>
   fst (UpdateAsPI
      (snd (UpdateAsPI
         (Reset (c\<lparr>P := zero, I := float_of_nat 1, MaxOutAbs := float_of_nat 1000\<rparr>))
         (float_of_nat 2) (float_of_nat 1)))
      (float_of_nat 2) (float_of_nat 1)) = float_of_nat 4"
  by (simp add: UpdateAsPI_def Reset_def Let_def nat_eval)

section \<open>Construction\<close>

text \<open>
  C9. The constructor with arguments stores the four values as given and, through its call
  of \<^verbatim>\<open>Reset\<close>, sets previous error and integral error to 0, whatever the storage held
  before; a further \<^verbatim>\<open>Reset\<close> changes nothing.
\<close>

theorem FPIDController_init_fields:
  "FPIDController_init this InP InI InD InMaxOutAbs =
     \<lparr>P = InP, I = InI, D = InD, MaxOutAbs = InMaxOutAbs, PrevErr = zero, IErr = zero\<rparr> \<and>
   FPIDController_init this InP InI InD InMaxOutAbs =
     Reset (this\<lparr>P := InP, I := InI, D := InD, MaxOutAbs := InMaxOutAbs\<rparr>) \<and>
   Reset (FPIDController_init this InP InI InD InMaxOutAbs) =
     FPIDController_init this InP InI InD InMaxOutAbs"
  by (cases this) (simp add: FPIDController_init_def Reset_def)

section \<open>A time step that is not a number\<close>

text \<open>
  C10. If the time step is not a number and the error is a number, the guard lets the call
  through: \<^verbatim>\<open>Update\<close> and \<^verbatim>\<open>UpdateAsPI\<close> make the integral error not a number,
  \<^verbatim>\<open>Update\<close> and \<^verbatim>\<open>UpdateAsPD\<close> set the previous error to the error, and each returns
  the clamp of not-a-number to the output limit, not the guard's 0.
\<close>

theorem NaN_deltaTime_passes_guard:
  "IsNaN InDeltaTime \<Longrightarrow> \<not> IsNaN InError \<Longrightarrow>
     \<not> (feq InDeltaTime zero \<or> IsNaN InError) \<and>
     Update c InError InDeltaTime =
       (Clamp NaN (fneg (MaxOutAbs c)) (MaxOutAbs c), c\<lparr>PrevErr := InError, IErr := NaN\<rparr>) \<and>
     UpdateAsPID c InError InDeltaTime =
       (Clamp NaN (fneg (MaxOutAbs c)) (MaxOutAbs c), c\<lparr>PrevErr := InError, IErr := NaN\<rparr>) \<and>
     UpdateAsPI c InError InDeltaTime =
       (Clamp NaN (fneg (MaxOutAbs c)) (MaxOutAbs c), c\<lparr>IErr := NaN\<rparr>) \<and>
     UpdateAsPD c InError InDeltaTime =
       (Clamp NaN (fneg (MaxOutAbs c)) (MaxOutAbs c), c\<lparr>PrevErr := InError\<rparr>)"
  by (simp add: IsNaN_iff Update_def UpdateAsPID_def UpdateAsPI_def UpdateAsPD_def Let_def
        fmul_NaN_right fadd_NaN_right fdiv_NaN_right)

theorem NaN_deltaTime_passes_guard_witness:
  "IsNaN NaN \<and> \<not> IsNaN (float_of_nat 5) \<and>
   \<not> (feq NaN zero \<or> IsNaN (float_of_nat 5)) \<and>
   Update used_ctl (float_of_nat 5) NaN =
     (Clamp NaN (fneg (float_of_nat 20)) (float_of_nat 20),
      used_ctl\<lparr>PrevErr := float_of_nat 5, IErr := NaN\<rparr>) \<and>
   UpdateAsPI used_ctl (float_of_nat 5) NaN =
     (Clamp NaN (fneg (float_of_nat 20)) (float_of_nat 20), used_ctl\<lparr>IErr := NaN\<rparr>) \<and>
   UpdateAsPD used_ctl (float_of_nat 5) NaN =
     (Clamp NaN (fneg (float_of_nat 20)) (float_of_nat 20),
      used_ctl\<lparr>PrevErr := float_of_nat 5\<rparr>)"
proof -
  have hyp: "IsNaN NaN" "\<not> IsNaN (float_of_nat 5)"
    by (simp_all add: IsNaN_float_of_nat) (simp add: IsNaN_def)
  have "MaxOutAbs used_ctl = float_of_nat 20"
    by (simp add: used_ctl_def)
  with hyp NaN_deltaTime_passes_guard [OF hyp, of used_ctl] show ?thesis
    by simp
qed

end
